theory Spec2Isabelle
  imports Complex_Main
begin

section \<open>Conventions of the embedding\<close>

text \<open>
  The repository builds symbolic expressions of an external finite-element
  library and hands them to that library's assembler and solver.  The
  embedding gives every such expression its pointwise value over the reals:
  a scalar field at a point is a \<open>real\<close>, a vector a \<open>real list\<close>, a
  tensor a list of rows.  A Python exception is a value of \<open>py_error\<close>, and
  a function that can raise returns \<open>py_error + 'a\<close>.  A Python function
  that falls off its last branch returns \<open>None\<close>.
\<close>

datatype py_error =
    AssertionError
  | AttributeError
  | NameError
  | TypeError
  | IndexError
  | ZeroDivisionError
  | UFLException
  | RuntimeError
  | KeyError

type_synonym vec = "real list"
type_synonym mat = "real list list"

subsection \<open>Tensor algebra used by the source\<close>

definition dot :: "vec \<Rightarrow> vec \<Rightarrow> real" where
  "dot u v = sum_list (map2 (*) u v)"

definition mat_vec :: "mat \<Rightarrow> vec \<Rightarrow> vec" where
  "mat_vec A v = map (\<lambda>r. dot r v) A"

definition mat_mul :: "mat \<Rightarrow> mat \<Rightarrow> mat" where
  "mat_mul A B = map (\<lambda>r. map (\<lambda>c. dot r c) (transpose B)) A"

definition tr :: "mat \<Rightarrow> real" where
  "tr A = sum_list (map (\<lambda>i. A ! i ! i) [0..<length A])"

definition outer :: "vec \<Rightarrow> vec \<Rightarrow> mat" where
  "outer u v = map (\<lambda>x. map (\<lambda>y. x * y) v) u"

definition Identity :: "nat \<Rightarrow> mat" where
  "Identity d = map (\<lambda>i. map (\<lambda>j. if i = j then 1 else 0) [0..<d]) [0..<d]"

definition vec_scale :: "real \<Rightarrow> vec \<Rightarrow> vec" where
  "vec_scale c v = map (\<lambda>x. c * x) v"

definition vec_add :: "vec \<Rightarrow> vec \<Rightarrow> vec" where
  "vec_add u v = map2 (+) u v"

definition vec_sub :: "vec \<Rightarrow> vec \<Rightarrow> vec" where
  "vec_sub u v = map2 (-) u v"

definition mat_scale :: "real \<Rightarrow> mat \<Rightarrow> mat" where
  "mat_scale c A = map (vec_scale c) A"

definition mat_add :: "mat \<Rightarrow> mat \<Rightarrow> mat" where
  "mat_add A B = map2 vec_add A B"

definition mat_sub :: "mat \<Rightarrow> mat \<Rightarrow> mat" where
  "mat_sub A B = map2 vec_sub A B"

definition geometric_dimension :: "mat \<Rightarrow> nat" where
  "geometric_dimension F = length F"

section \<open>material.py\<close>

subsection \<open>subplus and heaviside\<close>

text \<open>
  \<^verbatim>\<open>conditional(ge(x, 0.0), x, 0.0)\<close> and \<^verbatim>\<open>conditional(ge(x, 0.0), 1.0, 0.0)\<close>,
  evaluated at a point.
\<close>

definition subplus :: "real \<Rightarrow> real" where
  "subplus x = (if x \<ge> 0 then x else 0)"

definition heaviside :: "real \<Rightarrow> real" where
  "heaviside x = (if x \<ge> 0 then 1 else 0)"

subsection \<open>The Material classes\<close>

text \<open>
  The parameter dictionary of a subclass becomes attributes of the object by
  \<^verbatim>\<open>setattr\<close>; the model keeps the attributes each subclass reads:
  \<open>a, b, a_f, b_f\<close> for HolzapfelOgden and \<open>mu\<close> for NeoHookean.  The
  constructor of the parameters also tells the subclass.
\<close>

datatype material_params =
    HolzapfelOgden_params real real real real
  | NeoHookean_params real

record material =
  mtl_f0 :: "vec option"
  mtl_s0 :: "vec option"
  mtl_n0 :: "vec option"
  mtl_gamma :: real
  mtl_params :: material_params
  mtl_active_model :: string
  mtl_T_ref :: real

text \<open>\<^verbatim>\<open>Material.__init__(self, T_ref)\<close>: the assertion, then the default of \<open>T_ref\<close>.
  The result is the value stored in \<^verbatim>\<open>self._T_ref\<close>.\<close>

definition Material_init :: "string \<Rightarrow> real option \<Rightarrow> py_error + real" where
  "Material_init active_model T_ref =
     (if active_model \<in> set [''active_stress'', ''active_strain'', ''active_strain_rossi'']
      then (case T_ref of
              None \<Rightarrow> Inr (if active_model = ''active_stress'' then 300.0 else 1.0)
            | Some t \<Rightarrow> Inr t)
      else Inl AssertionError)"

definition HolzapfelOgden_default_parameters :: material_params where
  "HolzapfelOgden_default_parameters = HolzapfelOgden_params 2.28 9.726 1.685 15.779"

definition NeoHookean_default_parameters :: material_params where
  "NeoHookean_default_parameters = NeoHookean_params 0.385"

text \<open>\<^verbatim>\<open>HolzapfelOgden.__init__(f0, gamma, params, active_model, strain_markers, s0, n0, T_ref)\<close>.
  An argument whose default is \<^verbatim>\<open>None\<close> is an option; \<open>params\<close> holds
  \<open>(a, b, a_f, b_f)\<close>.\<close>

definition HolzapfelOgden_init ::
  "vec option \<Rightarrow> real option \<Rightarrow> (real \<times> real \<times> real \<times> real) option \<Rightarrow> string \<Rightarrow>
   vec option \<Rightarrow> vec option \<Rightarrow> real option \<Rightarrow> py_error + material" where
  "HolzapfelOgden_init f0 gamma params active_model s0 n0 T_ref =
     (let g = (case gamma of None \<Rightarrow> 0 | Some g \<Rightarrow> g);
          ps = (case params of
                  None \<Rightarrow> HolzapfelOgden_default_parameters
                | Some (a, b, a_f, b_f) \<Rightarrow> HolzapfelOgden_params a b a_f b_f)
      in case Material_init active_model T_ref of
           Inl e \<Rightarrow> Inl e
         | Inr t \<Rightarrow> Inr \<lparr> mtl_f0 = f0, mtl_s0 = s0, mtl_n0 = n0, mtl_gamma = g,
                         mtl_params = ps, mtl_active_model = active_model, mtl_T_ref = t \<rparr>)"

text \<open>\<^verbatim>\<open>NeoHookean.__init__(f0, gamma, params, active_model, s0, n0, T_ref)\<close>.\<close>

definition NeoHookean_init ::
  "vec option \<Rightarrow> real option \<Rightarrow> real option \<Rightarrow> string \<Rightarrow>
   vec option \<Rightarrow> vec option \<Rightarrow> real option \<Rightarrow> py_error + material" where
  "NeoHookean_init f0 gamma params active_model s0 n0 T_ref =
     (let g = (case gamma of None \<Rightarrow> 0 | Some g \<Rightarrow> g);
          ps = (case params of
                  None \<Rightarrow> NeoHookean_default_parameters
                | Some mu \<Rightarrow> NeoHookean_params mu)
      in case Material_init active_model T_ref of
           Inl e \<Rightarrow> Inl e
         | Inr t \<Rightarrow> Inr \<lparr> mtl_f0 = f0, mtl_s0 = s0, mtl_n0 = n0, mtl_gamma = g,
                         mtl_params = ps, mtl_active_model = active_model, mtl_T_ref = t \<rparr>)"

subsection \<open>The Guccione class\<close>

text \<open>
  \<open>Guccione\<close> is the third subclass of \<open>Material\<close>.  Its constructor takes
  keyword parameters only, has no active-model argument and does not call
  \<^verbatim>\<open>Material.__init__\<close>.  A parameter value is \<^verbatim>\<open>None\<close>, a number, a vector
  field or a string; the keyword parameters are a list of pairs with distinct
  keys, so that \<^verbatim>\<open>update\<close> is the override of one map by another.  The record
  holds the three attributes the constructor sets.
\<close>

datatype py_value = PyNone | PyFloat real | PyVec vec | PyStr string

record guccione =
  guc_parameters :: "string \<rightharpoonup> py_value"
  guc_gamma :: py_value
  guc_f0 :: py_value

definition Guccione_default_parameters :: "(string \<times> py_value) list" where
  "Guccione_default_parameters =
     [(''C'', PyFloat 2.0), (''bf'', PyFloat 8.0), (''bt'', PyFloat 2.0),
      (''bfs'', PyFloat 4.0), (''e1'', PyNone), (''e2'', PyNone), (''e3'', PyNone),
      (''kappa'', PyNone), (''Tactive'', PyNone)]"

text \<open>\<^verbatim>\<open>Guccione.__init__(**params)\<close>; reading a key a dictionary does not have
  is a \<^verbatim>\<open>KeyError\<close>.\<close>

definition Guccione_init :: "(string \<times> py_value) list \<Rightarrow> py_error + guccione" where
  "Guccione_init params =
     (let parameters = map_of Guccione_default_parameters ++ map_of params
      in case parameters ''Tactive'' of
           None \<Rightarrow> Inl KeyError
         | Some tactive \<Rightarrow>
             (case parameters ''e1'' of
                None \<Rightarrow> Inl KeyError
              | Some e1 \<Rightarrow>
                  Inr \<lparr> guc_parameters = parameters, guc_gamma = tactive, guc_f0 = e1 \<rparr>))"

text \<open>The object \<^verbatim>\<open>HolzapfelOgden()\<close> builds when every argument has its default.\<close>

definition default_HolzapfelOgden :: material where
  "default_HolzapfelOgden =
     \<lparr> mtl_f0 = None, mtl_s0 = None, mtl_n0 = None, mtl_gamma = 0,
       mtl_params = HolzapfelOgden_default_parameters,
       mtl_active_model = ''active_strain'', mtl_T_ref = 1.0 \<rparr>"

text \<open>An active_stress material with a fiber along the first axis, activation 1
  and no \<open>T_ref\<close> given: what
  \<^verbatim>\<open>HolzapfelOgden([1,0,0], 1, active_model = "active_stress")\<close> builds.\<close>

definition stress_example :: material where
  "stress_example =
     \<lparr> mtl_f0 = Some [1, 0, 0], mtl_s0 = None, mtl_n0 = None, mtl_gamma = 1,
       mtl_params = HolzapfelOgden_default_parameters,
       mtl_active_model = ''active_stress'', mtl_T_ref = 300.0 \<rparr>"

subsection \<open>Energy terms and their derivatives\<close>

text \<open>\<^verbatim>\<open>W_1(I_1, diff, dim)\<close> of the subclass of the material.\<close>

definition W_1 :: "material \<Rightarrow> real \<Rightarrow> nat \<Rightarrow> nat \<Rightarrow> real option" where
  "W_1 m I_1 diff gdim =
     (case mtl_params m of
        HolzapfelOgden_params a b a_f b_f \<Rightarrow>
          if diff = 0 then Some (a / (2.0 * b) * (exp (b * (I_1 - 3)) - 1))
          else if diff = 1 then Some (a / 2.0 * exp (b * (I_1 - 3)))
          else if diff = 2 then Some (a * b / 2.0 * exp (b * (I_1 - 3)))
          else None
      | NeoHookean_params mu \<Rightarrow>
          if diff = 0 then Some (0.5 * mu * (I_1 - real gdim))
          else if diff = 1 then Some (0.5 * mu)
          else if diff = 2 then Some 0
          else None)"

text \<open>\<^verbatim>\<open>W_4(I_4, diff)\<close> of the subclass of the material.\<close>

definition W_4 :: "material \<Rightarrow> real \<Rightarrow> nat \<Rightarrow> real option" where
  "W_4 m I_4 diff =
     (case mtl_params m of
        HolzapfelOgden_params a b a_f b_f \<Rightarrow>
          if I_4 = 0 then Some 0
          else if diff = 0 then
            Some (a_f / (2.0 * b_f) * heaviside (I_4 - 1) * (exp (b_f * (I_4 - 1)\<^sup>2) - 1))
          else if diff = 1 then
            Some (a_f * subplus (I_4 - 1) * exp (b_f * (I_4 - 1)\<^sup>2))
          else if diff = 2 then
            Some (a_f * heaviside (I_4 - 1) * (1 + 2.0 * b_f * (I_4 - 1)\<^sup>2)
                    * exp (b_f * (I_4 - 1)\<^sup>2))
          else None
      | NeoHookean_params mu \<Rightarrow> Some 0)"

text \<open>The number a call of \<open>W_4\<close> returns, as a function of the invariant
  (for the three derivative orders the call always returns a number).\<close>

definition W_4_value :: "material \<Rightarrow> nat \<Rightarrow> real \<Rightarrow> real" where
  "W_4_value m diff I_4 = (case W_4 m I_4 diff of Some v \<Rightarrow> v | None \<Rightarrow> 0)"

text \<open>\<^verbatim>\<open>Material.Wactive(gamma, I4f = 0, diff = 0)\<close>.\<close>

definition Wactive :: "material \<Rightarrow> real \<Rightarrow> real \<Rightarrow> nat \<Rightarrow> real option" where
  "Wactive m gamma I4f diff =
     (if mtl_active_model m = ''active_stress'' then
        (if diff = 0 then Some (mtl_T_ref m * gamma * I4f)
         else if diff = 1 then Some gamma
         else None)
      else Some 0)"

subsection \<open>Invariants\<close>

definition I1 :: "mat \<Rightarrow> real" where
  "I1 F = tr (mat_mul (transpose F) F)"

definition I4f :: "material \<Rightarrow> mat \<Rightarrow> real" where
  "I4f m F =
     (case mtl_f0 m of
        None \<Rightarrow> 0
      | Some f0 \<Rightarrow> dot (mat_vec (mat_mul (transpose F) F) f0) f0)"

text \<open>
  \<^verbatim>\<open>I1e(F, gamma)\<close>.  A tag that is neither of the two active-strain tags leaves
  \<^verbatim>\<open>mgamma\<close> unbound, a \<^verbatim>\<open>NameError\<close>.  Where \<open>mgamma = 0\<close> the
  quotient \<^verbatim>\<open>1/mgamma**2\<close> has no value; the model says so with
  \<open>ZeroDivisionError\<close>.
\<close>

definition I1e :: "material \<Rightarrow> mat \<Rightarrow> real \<Rightarrow> py_error + real" where
  "I1e m F gamma =
     (let I1v = I1 F; I4fv = I4f m F; d = geometric_dimension F in
      if mtl_active_model m = ''active_stress'' then Inr I1v
      else
        (case (if mtl_active_model m = ''active_strain'' then Some (1 - gamma)
               else if mtl_active_model m = ''active_strain_rossi'' then Some (1 + gamma)
               else None) of
           None \<Rightarrow> Inl NameError
         | Some mgamma \<Rightarrow>
             if mgamma = 0 then Inl ZeroDivisionError
             else Inr (mgamma powi (4 - int d) * I1v
                       + (1 / mgamma\<^sup>2 - mgamma powi (4 - int d)) * I4fv)))"

definition I4fe :: "material \<Rightarrow> mat \<Rightarrow> real \<Rightarrow> py_error + real" where
  "I4fe m F gamma =
     (let I4fv = I4f m F in
      if mtl_active_model m = ''active_stress'' then Inr I4fv
      else
        (case (if mtl_active_model m = ''active_strain'' then Some (1 - gamma)
               else if mtl_active_model m = ''active_strain_rossi'' then Some (1 + gamma)
               else None) of
           None \<Rightarrow> Inl NameError
         | Some mgamma \<Rightarrow>
             if mgamma = 0 then Inl ZeroDivisionError
             else Inr (1 / mgamma\<^sup>2 * I4fv)))"

subsection \<open>Cauchy stress\<close>

definition vec_div :: "vec \<Rightarrow> real \<Rightarrow> vec" where
  "vec_div v c = map (\<lambda>x. x / c) v"

text \<open>
  \<^verbatim>\<open>CauchyStress(F, p = None)\<close>.  The activation is the value of
  \<^verbatim>\<open>self.gamma\<close> (of its function, for a regional gamma).  Without a fiber
  field or without \<open>p\<close> the products with \<^verbatim>\<open>None\<close> raise \<^verbatim>\<open>TypeError\<close>,
  as does a derivative branch that returned \<^verbatim>\<open>None\<close>; normalising a zero
  fiber has no value.
\<close>

definition CauchyStress :: "material \<Rightarrow> mat \<Rightarrow> real option \<Rightarrow> py_error + mat" where
  "CauchyStress m F p =
     (let gamma = mtl_gamma m;
          B = mat_mul F (transpose F)
      in case mtl_f0 m of
           None \<Rightarrow> Inl TypeError
         | Some f0 \<Rightarrow>
             let f = mat_vec F f0 in
             if sqrt (dot f f) = 0 then Inl ZeroDivisionError
             else
               let f = vec_div f (sqrt (dot f f));
                   ff = outer f f;
                   gdim = geometric_dimension F;
                   I = Identity gdim;
                   I1v = I1 F;
                   I4fv = I4f m F
               in case (W_1 m I1v 1 gdim, W_4 m I4fv 1, Wactive m gamma 0 1, p) of
                    (Some w1, Some w4f, Some wactive, Some pv) \<Rightarrow>
                      Inr (mat_sub
                             (mat_add (mat_add (mat_scale (2 * w1) B) (mat_scale (2 * w4f) ff))
                                      (mat_scale (2 * wactive) ff))
                             (mat_scale pv I))
                  | _ \<Rightarrow> Inl TypeError)"

section \<open>optimization\_targets.py\<close>

subsection \<open>Fields, measures and the space of constants\<close>

text \<open>
  An integration measure of the external library is given by its quadrature:
  the points with their weights.  A field is a function of the point; the
  spatial coordinate is the point itself.  \<open>assemble\<close> integrates a
  scalar field.
\<close>

type_synonym point = vec
type_synonym measure = "(real \<times> point) list"

definition assemble :: "(point \<Rightarrow> real) \<Rightarrow> measure \<Rightarrow> real" where
  "assemble f dmu = sum_list (map (\<lambda>(w, x). w * f x) dmu)"

text \<open>
  \<^verbatim>\<open>solve(lhs == rhs, fun)\<close> for a function of the space of constants
  (\<^verbatim>\<open>"R", 0\<close>): trial and test function are constants, so the equation is
  \<open>c * a = b\<close> with \<open>a\<close> the assembled coefficient of the trial function and
  \<open>b\<close> the assembled right-hand side.  A zero coefficient is a singular system.
\<close>

definition solve_R :: "real \<Rightarrow> real \<Rightarrow> py_error + real" where
  "solve_R a b = (if a = 0 then Inl RuntimeError else Inr (b / a))"

text \<open>A displacement: its value and its gradient at a point.\<close>

record displacement =
  u_value :: "point \<Rightarrow> vec"
  u_grad :: "point \<Rightarrow> mat"

subsection \<open>Determinant and inverse of a 3 by 3 tensor\<close>

definition det :: "mat \<Rightarrow> real" where
  "det A =
     A ! 0 ! 0 * (A ! 1 ! 1 * A ! 2 ! 2 - A ! 1 ! 2 * A ! 2 ! 1)
     - A ! 0 ! 1 * (A ! 1 ! 0 * A ! 2 ! 2 - A ! 1 ! 2 * A ! 2 ! 0)
     + A ! 0 ! 2 * (A ! 1 ! 0 * A ! 2 ! 1 - A ! 1 ! 1 * A ! 2 ! 0)"

definition adj :: "mat \<Rightarrow> mat" where
  "adj A =
     [[A ! 1 ! 1 * A ! 2 ! 2 - A ! 1 ! 2 * A ! 2 ! 1,
       A ! 0 ! 2 * A ! 2 ! 1 - A ! 0 ! 1 * A ! 2 ! 2,
       A ! 0 ! 1 * A ! 1 ! 2 - A ! 0 ! 2 * A ! 1 ! 1],
      [A ! 1 ! 2 * A ! 2 ! 0 - A ! 1 ! 0 * A ! 2 ! 2,
       A ! 0 ! 0 * A ! 2 ! 2 - A ! 0 ! 2 * A ! 2 ! 0,
       A ! 0 ! 2 * A ! 1 ! 0 - A ! 0 ! 0 * A ! 1 ! 2],
      [A ! 1 ! 0 * A ! 2 ! 1 - A ! 1 ! 1 * A ! 2 ! 0,
       A ! 0 ! 1 * A ! 2 ! 0 - A ! 0 ! 0 * A ! 2 ! 1,
       A ! 0 ! 0 * A ! 1 ! 1 - A ! 0 ! 1 * A ! 1 ! 0]]"

definition inv_mat :: "mat \<Rightarrow> mat" where
  "inv_mat A = mat_scale (1 / det A) (adj A)"

subsection \<open>VolumeTarget\<close>

text \<open>
  The target space is the space of constants, so target, simulated value and
  functional are one number each.  \<open>vt_dmu\<close> is the surface measure of the
  endocardium, \<open>vt_N\<close> the facet normal, \<open>vt_meshvol\<close> the assembled volume
  of the mesh.
\<close>

record volume_target =
  vt_dmu :: measure
  vt_N :: "point \<Rightarrow> vec"
  vt_meshvol :: real
  vt_target_fun :: real
  vt_simulated_fun :: real
  vt_functional :: real

text \<open>The expression \<^verbatim>\<open>vol\<close> of \<^verbatim>\<open>assign_simulated\<close> at a point \<open>X\<close>.\<close>

definition vol :: "volume_target \<Rightarrow> displacement \<Rightarrow> point \<Rightarrow> real" where
  "vol t u X =
     (let F = mat_add (u_grad u X) (Identity 3);
          J = det F
      in (- 1.0 / 3.0)
           * dot (vec_add X (u_value u X))
                 (mat_vec (mat_scale J (transpose (inv_mat F))) (vt_N t X)))"

text \<open>
  \<^verbatim>\<open>VolumeTarget.assign_simulated(u)\<close>:
  \<^verbatim>\<open>solve(inner(trial, test)*dmu == inner(vol, test)*dmu, simulated_fun)\<close>.
  The inverse of \<open>F\<close> has no value where \<open>det F = 0\<close>.
\<close>

definition VolumeTarget_assign_simulated ::
  "volume_target \<Rightarrow> displacement \<Rightarrow> py_error + volume_target" where
  "VolumeTarget_assign_simulated t u =
     (if \<exists>(w, X) \<in> set (vt_dmu t). det (mat_add (u_grad u X) (Identity 3)) = 0
      then Inl ZeroDivisionError
      else case solve_R (assemble (\<lambda>X. 1) (vt_dmu t)) (assemble (vol t u) (vt_dmu t)) of
             Inl e \<Rightarrow> Inl e
           | Inr c \<Rightarrow> Inr (t\<lparr>vt_simulated_fun := c\<rparr>))"

text \<open>\<^verbatim>\<open>VolumeTarget._set_form\<close>: the value of the form; the quotient has no value
  for a zero target.\<close>

definition VolumeTarget_form :: "volume_target \<Rightarrow> py_error + real" where
  "VolumeTarget_form t =
     (if vt_target_fun t = 0 then Inl ZeroDivisionError
      else Inr (((vt_target_fun t - vt_simulated_fun t) / vt_target_fun t)\<^sup>2))"

text \<open>\<^verbatim>\<open>OptimizationTarget.assign_functional\<close> and \<^verbatim>\<open>get_value\<close>, for the volume
  target: \<^verbatim>\<open>solve(trial_r*test_r*dx == test_r*form*dx, functional)\<close>, the form
  being constant over the mesh.\<close>

definition VolumeTarget_assign_functional :: "volume_target \<Rightarrow> py_error + volume_target" where
  "VolumeTarget_assign_functional t =
     (case VolumeTarget_form t of
        Inl e \<Rightarrow> Inl e
      | Inr fv \<Rightarrow>
          (case solve_R (vt_meshvol t) (fv * vt_meshvol t) of
             Inl e \<Rightarrow> Inl e
           | Inr c \<Rightarrow> Inr (t\<lparr>vt_functional := c\<rparr>)))"

definition VolumeTarget_get_value :: "volume_target \<Rightarrow> real" where
  "VolumeTarget_get_value t = vt_functional t"

text \<open>A surface of two facets of area 1 each, on the sphere of radius 3 about the
  origin, the normal pointing to the centre; and the zero displacement.\<close>

definition zero_displacement :: displacement where
  "zero_displacement =
     \<lparr> u_value = (\<lambda>X. [0, 0, 0]),
       u_grad = (\<lambda>X. [[0, 0, 0], [0, 0, 0], [0, 0, 0]]) \<rparr>"

definition sphere_patch_target :: volume_target where
  "sphere_patch_target =
     \<lparr> vt_dmu = [(1, [3, 0, 0]), (1, [0, 3, 0])],
       vt_N = (\<lambda>X. vec_scale (- 1 / 3) X),
       vt_meshvol = 5, vt_target_fun = 0, vt_simulated_fun = 0, vt_functional = 0 \<rparr>"

subsection \<open>RegionalStrainTarget\<close>

text \<open>
  \<open>rst_dmu i\<close> is the assembled volume of the sub-domain with marker \<open>i\<close>.
  The functions of a segment are constants: three strain components, one
  functional value, nine components of the weight tensor.
\<close>

record regional_strain_target =
  rst_weights_arr :: "real list list"
  rst_dmu :: "nat \<Rightarrow> real"
  rst_meshvol :: real
  rst_target_fun :: "vec list"
  rst_simulated_fun :: "vec list"
  rst_functional :: "real list"
  rst_weights :: "vec list"

text \<open>
  \<^verbatim>\<open>RegionalStrainTarget.set_target_functions\<close>.  The four lists are built by
  comprehensions over \<^verbatim>\<open>range(1,18)\<close>; a new function is zero.  The
  assignment of the weights follows the comprehensions and is not in a loop:
  it reads \<^verbatim>\<open>i\<close>, which the last comprehension left at its last value
  (the source is Python 2, whose comprehensions leak their variable).
\<close>

definition RegionalStrainTarget_set_target_functions ::
  "regional_strain_target \<Rightarrow> py_error + regional_strain_target" where
  "RegionalStrainTarget_set_target_functions t =
     (let target_fun = map (\<lambda>i. replicate 3 0) [1..<18];
          simulated_fun = map (\<lambda>i. replicate 3 0) [1..<18];
          functional = map (\<lambda>i. 0) [1..<18];
          weights = map (\<lambda>i. replicate 9 0) [1..<18];
          i = last [1..<18];
          arr = rst_weights_arr t
      in if \<not> (i - 1 < length arr \<and> 2 < length (arr ! (i - 1))) then Inl IndexError
         else
           let strain_weight =
                 (replicate 9 0)[0 := arr ! (i - 1) ! 0, 4 := arr ! (i - 1) ! 1,
                                 8 := arr ! (i - 1) ! 2]
           in Inr (t\<lparr>rst_target_fun := target_fun, rst_simulated_fun := simulated_fun,
                     rst_functional := functional,
                     rst_weights := weights[i - 1 := strain_weight]\<rparr>))"

text \<open>The tensor with the nine components \<open>w\<close>, row by row.\<close>

definition as_tensor :: "vec \<Rightarrow> mat" where
  "as_tensor w = [[w ! 0, w ! 1, w ! 2], [w ! 3, w ! 4, w ! 5], [w ! 6, w ! 7, w ! 8]]"

text \<open>\<^verbatim>\<open>_set_form\<close>: \<^verbatim>\<open>(dot(weights[i], simulated_fun[i] - target_fun[i]))**2\<close>; the
  square of a vector is its inner product with itself.\<close>

definition RegionalStrainTarget_form :: "regional_strain_target \<Rightarrow> nat \<Rightarrow> real" where
  "RegionalStrainTarget_form t i =
     (let v = mat_vec (as_tensor (rst_weights t ! i))
                (vec_sub (rst_simulated_fun t ! i) (rst_target_fun t ! i))
      in dot v v)"

text \<open>\<^verbatim>\<open>assign_functional\<close>, segment \<open>i\<close>:
  \<^verbatim>\<open>solve(trial_r*test_r/meshvol*dx == test_r*form[i]*dmu(i+1), functional[i])\<close>.\<close>

definition RegionalStrainTarget_functional_i ::
  "regional_strain_target \<Rightarrow> nat \<Rightarrow> py_error + real" where
  "RegionalStrainTarget_functional_i t i =
     solve_R (rst_meshvol t / rst_meshvol t) (RegionalStrainTarget_form t i * rst_dmu t (i + 1))"

fun assign_functional_loop ::
  "regional_strain_target \<Rightarrow> nat list \<Rightarrow> py_error + regional_strain_target" where
  "assign_functional_loop t [] = Inr t"
| "assign_functional_loop t (i # is) =
     (case RegionalStrainTarget_functional_i t i of
        Inl e \<Rightarrow> Inl e
      | Inr c \<Rightarrow> assign_functional_loop (t\<lparr>rst_functional := (rst_functional t)[i := c]\<rparr>) is)"

definition RegionalStrainTarget_assign_functional ::
  "regional_strain_target \<Rightarrow> py_error + regional_strain_target" where
  "RegionalStrainTarget_assign_functional t = assign_functional_loop t [0..<17]"

definition RegionalStrainTarget_get_value :: "regional_strain_target \<Rightarrow> real" where
  "RegionalStrainTarget_get_value t = sum_list (map (\<lambda>i. rst_functional t ! i) [0..<17])"

text \<open>A target built with the default weights \<^verbatim>\<open>np.ones((17,3))\<close>.\<close>

definition unit_weights_target :: regional_strain_target where
  "unit_weights_target =
     \<lparr> rst_weights_arr = replicate 17 [1, 1, 1],
       rst_dmu = (\<lambda>i. 1), rst_meshvol = 17,
       rst_target_fun = [], rst_simulated_fun = [], rst_functional = [], rst_weights = [] \<rparr>"

subsection \<open>Regularization\<close>

record regularization =
  reg_space :: string
  reg_lmbda :: real
  reg_value :: real
  reg_meshvol :: real
  reg_dx :: measure
  reg_results :: "real list"

text \<open>\<^verbatim>\<open>Regularization.__init__(mesh, space, lmbda)\<close>; the mesh is given by its
  volume measure.  The attribute set here is \<^verbatim>\<open>meshvol\<close>.\<close>

definition Regularization_init :: "measure \<Rightarrow> string \<Rightarrow> real \<Rightarrow> py_error + regularization" where
  "Regularization_init mesh space lmbda =
     (if space \<in> set [''CG_1'', ''regional'', ''R_0'']
      then Inr \<lparr> reg_space = space, reg_lmbda = lmbda, reg_value = 0.0,
                 reg_meshvol = assemble (\<lambda>x. 1.0) mesh, reg_dx = mesh, reg_results = [] \<rparr>
      else Inl AssertionError)"

text \<open>A control function: its vector of coefficients, its value and its
  gradient at a point.\<close>

record control_function =
  ctl_array :: "real list"
  ctl_value :: "point \<Rightarrow> vec"
  ctl_grad :: "point \<Rightarrow> vec"

text \<open>A form: an integrand and the measure it is integrated over.\<close>

datatype form = Form "point \<Rightarrow> real" measure

fun assemble_form :: "form \<Rightarrow> real" where
  "assemble_form (Form f dmu) = assemble f dmu"

text \<open>
  \<^verbatim>\<open>Regularization.get_form(m)\<close>.  The regional branch builds
  \<^verbatim>\<open>inner(m - m_mean, m - m_mean)\<close> with a mean of 17 components (the
  difference is refused for a control of another size) and then reads
  \<^verbatim>\<open>self.mesh_vol\<close>, an attribute the constructor never sets.
\<close>

definition get_form :: "regularization \<Rightarrow> control_function \<Rightarrow> py_error + form" where
  "get_form r m =
     (if reg_space r = ''CG_1'' then
        Inr (Form (\<lambda>x. dot (ctl_grad m x) (ctl_grad m x) / reg_meshvol r) (reg_dx r))
      else if reg_space r = ''regional'' then
        (let m_arr = ctl_array m;
             m_mean = replicate 17 (sum_list m_arr / real (length m_arr))
         in if length m_arr \<noteq> length m_mean then Inl UFLException
            else Inl AttributeError)
      else Inr (Form (\<lambda>x. 0.0) (reg_dx r)))"

section \<open>setup\_optimization.py: MyReducedFunctional\<close>

text \<open>
  A Python float that may be infinite.  Finite values are reals; the
  products with an infinity follow the sign, and zero times infinity is
  not a number.
\<close>

datatype pyfloat = Fin real | PInf | MInf | NaN

fun pf_mul :: "pyfloat \<Rightarrow> pyfloat \<Rightarrow> pyfloat" where
  "pf_mul (Fin x) (Fin y) = Fin (x * y)"
| "pf_mul (Fin x) PInf = (if x > 0 then PInf else if x < 0 then MInf else NaN)"
| "pf_mul (Fin x) MInf = (if x > 0 then MInf else if x < 0 then PInf else NaN)"
| "pf_mul PInf (Fin y) = (if y > 0 then PInf else if y < 0 then MInf else NaN)"
| "pf_mul MInf (Fin y) = (if y > 0 then MInf else if y < 0 then PInf else NaN)"
| "pf_mul PInf PInf = PInf"
| "pf_mul PInf MInf = MInf"
| "pf_mul MInf PInf = MInf"
| "pf_mul MInf MInf = PInf"
| "pf_mul NaN _ = NaN"
| "pf_mul _ NaN = NaN"

text \<open>The results bundle of a forward run, with the two entries the call reads.\<close>

record for_result =
  fr_total_functional :: real
  fr_func_value :: pyfloat

text \<open>The attributes of a \<^verbatim>\<open>MyReducedFunctional\<close>.  \<open>rf_functional\<close> and
  \<open>rf_controls\<close> are the attributes of the base class.\<close>

record reduced_functional =
  rf_log_level :: nat
  rf_paramvec :: vec
  rf_scale :: real
  rf_derivative_scale :: real
  rf_verbose :: bool
  rf_first_call :: bool
  rf_nr_crashes :: nat
  rf_iter :: nat
  rf_nr_der_calls :: nat
  rf_func_values_lst :: "pyfloat list"
  rf_controls_lst :: "vec list"
  rf_forward_times :: "real list"
  rf_backward_times :: "real list"
  rf_grad_norm :: "real list"
  rf_grad_norm_scaled :: "real list"
  rf_for_res :: "for_result option"
  rf_ini_for_res :: "for_result option"
  rf_functional :: "real option"
  rf_controls :: "vec option"

text \<open>The process-wide state the call writes: the adjoint-recording switch
  \<^verbatim>\<open>parameters["adjoint"]["stop_annotating"]\<close> and the level of the logger.\<close>

record process_state =
  stop_annotating :: bool
  logger_level :: nat

text \<open>
  What the call takes from outside the repository: the forward model
  \<^verbatim>\<open>for_run(control, annotate)\<close>, which returns the results and the crash flag
  or raises; the time the timer measures; and the constructor of the external
  base class, called as \<^verbatim>\<open>ReducedFunctional.__init__(self, functional, control)\<close>.
\<close>

record environment =
  env_for_run :: "vec \<Rightarrow> bool \<Rightarrow> py_error + (for_result \<times> bool)"
  env_for_time :: real
  env_ReducedFunctional_init :: "reduced_functional \<Rightarrow> real \<Rightarrow> vec \<Rightarrow> reduced_functional"

text \<open>\<^verbatim>\<open>MyReducedFunctional.__init__(for_run, paramvec, scale, relax, verbose)\<close>,
  with the first \<^verbatim>\<open>reset\<close> it makes; the forward model is kept in the
  environment.\<close>

definition MyReducedFunctional_init ::
  "process_state \<Rightarrow> vec \<Rightarrow> real \<Rightarrow> real \<Rightarrow> bool \<Rightarrow> reduced_functional" where
  "MyReducedFunctional_init g paramvec scale relax verbose =
     \<lparr> rf_log_level = logger_level g, rf_paramvec = paramvec, rf_scale = scale,
       rf_derivative_scale = relax, rf_verbose = verbose, rf_first_call = True,
       rf_nr_crashes = 0, rf_iter = 0, rf_nr_der_calls = 0, rf_func_values_lst = [],
       rf_controls_lst = [], rf_forward_times = [], rf_backward_times = [],
       rf_grad_norm = [], rf_grad_norm_scaled = [], rf_for_res = None,
       rf_ini_for_res = None, rf_functional = None, rf_controls = None \<rparr>"

definition INFO :: nat where "INFO = 20"
definition WARNING :: nat where "WARNING = 30"

text \<open>The argument \<^verbatim>\<open>value\<close> of the call, by the branch of the type test it takes.\<close>

datatype control_value =
    FunctionValue vec
  | NumberValue real
  | EnlistedValue vec
  | ArrayValue vec

fun new_control :: "control_value \<Rightarrow> vec" where
  "new_control (FunctionValue v) = v"
| "new_control (NumberValue x) = [x]"
| "new_control (EnlistedValue v) = v"
| "new_control (ArrayValue v) = v"

text \<open>What the call returns: the value, or the pair of the value and the crash
  flag when \<^verbatim>\<open>return_fail\<close> is set.\<close>

datatype call_result = Value pyfloat | ValueAndFail pyfloat bool


text \<open>
  \<^verbatim>\<open>MyReducedFunctional.__call__(value, return_fail)\<close>.  The result is the
  state the call leaves behind and what it returns or raises.  Resetting the
  tape, the log lines and \<^verbatim>\<open>print_line\<close> change none of the state modelled.
\<close>

definition call ::
  "environment \<Rightarrow> control_value \<Rightarrow> bool \<Rightarrow> process_state \<times> reduced_functional \<Rightarrow>
   (process_state \<times> reduced_functional) \<times> (py_error + call_result)" where
  "call env val return_fail w =
     (let g0 = fst w;
          s1 = (snd w)\<lparr>rf_iter := rf_iter (snd w) + 1\<rparr>;
          paramvec_new = new_control val;
          g1 = g0\<lparr>stop_annotating := False\<rparr>;
          change_log_level = (rf_log_level s1 = INFO \<and> \<not> rf_verbose s1);
          g2 = (if change_log_level then g1\<lparr>logger_level := WARNING\<rparr> else g1)
      in case env_for_run env paramvec_new True of
           Inl e \<Rightarrow> ((g2, s1), Inl e)
         | Inr (for_res, crash) \<Rightarrow>
             let s2 = s1\<lparr>rf_for_res := Some for_res,
                         rf_forward_times := rf_forward_times s1 @ [env_for_time env]\<rparr>;
                 g3 = (if change_log_level then g2\<lparr>logger_level := rf_log_level s2\<rparr> else g2);
                 s3 = (if rf_first_call s2
                       then s2\<lparr>rf_ini_for_res := Some for_res, rf_first_call := False\<rparr>
                       else s2);
                 s4 = env_ReducedFunctional_init env s3 (fr_total_functional for_res)
                        (rf_paramvec s3);
                 func_value = (if crash then PInf else fr_func_value for_res);
                 s5 = (if crash then s4\<lparr>rf_nr_crashes := rf_nr_crashes s4 + 1\<rparr> else s4);
                 s6 = s5\<lparr>rf_func_values_lst :=
                            rf_func_values_lst s5 @ [pf_mul func_value (Fin (rf_scale s5))],
                          rf_controls_lst := rf_controls_lst s5 @ [paramvec_new]\<rparr>;
                 g4 = g3\<lparr>stop_annotating := True\<rparr>
             in ((g4, s6),
                 Inr (if return_fail
                      then ValueAndFail (pf_mul (Fin (rf_scale s6)) func_value) crash
                      else Value (pf_mul (Fin (rf_scale s6)) func_value))))"

text \<open>
  Environments to run the call in: a base-class constructor that stores its
  two arguments, a forward model that returns given results and crash flag,
  and one that raises.  \<open>recording_off\<close> is the process state between calls.
\<close>

definition ReducedFunctional_init_stores ::
  "reduced_functional \<Rightarrow> real \<Rightarrow> vec \<Rightarrow> reduced_functional" where
  "ReducedFunctional_init_stores s J c = s\<lparr>rf_functional := Some J, rf_controls := Some c\<rparr>"

definition forward_returns :: "for_result \<Rightarrow> bool \<Rightarrow> environment" where
  "forward_returns res crash =
     \<lparr> env_for_run = (\<lambda>v annotate. Inr (res, crash)), env_for_time = 1,
       env_ReducedFunctional_init = ReducedFunctional_init_stores \<rparr>"

definition forward_raises :: environment where
  "forward_raises =
     \<lparr> env_for_run = (\<lambda>v annotate. Inl RuntimeError), env_for_time = 1,
       env_ReducedFunctional_init = ReducedFunctional_init_stores \<rparr>"

definition recording_off :: process_state where
  "recording_off = \<lparr> stop_annotating = True, logger_level = INFO \<rparr>"

section \<open>Properties of material.py\<close>

subsection \<open>The gated anisotropic term\<close>

lemma W_4_value_0:
  "mtl_params m = HolzapfelOgden_params a b af bf \<Longrightarrow>
   W_4_value m 0 x = (if 1 \<le> x then af / (2 * bf) * (exp (bf * (x - 1)\<^sup>2) - 1) else 0)"
  by (simp add: W_4_value_def W_4_def heaviside_def)

lemma W_4_value_1:
  "mtl_params m = HolzapfelOgden_params a b af bf \<Longrightarrow>
   W_4_value m (Suc 0) x = af * max (x - 1) 0 * exp (bf * (x - 1)\<^sup>2)"
  by (simp add: W_4_value_def W_4_def subplus_def max_def)

lemma W_4_value_2:
  "mtl_params m = HolzapfelOgden_params a b af bf \<Longrightarrow>
   W_4_value m 2 x = (if 1 \<le> x then af * (1 + 2 * bf * (x - 1)\<^sup>2) * exp (bf * (x - 1)\<^sup>2) else 0)"
  by (simp add: W_4_value_def W_4_def heaviside_def)

lemma deriv_g:
  fixes af bf :: real
  assumes "bf \<noteq> 0"
  shows "((\<lambda>x. af / (2 * bf) * (exp (bf * (x - 1)\<^sup>2) - 1)) has_real_derivative
          af * (x - 1) * exp (bf * (x - 1)\<^sup>2)) (at x)"
  using assms by (auto intro!: derivative_eq_intros simp: field_simps)

lemma deriv_h:
  fixes af bf :: real
  shows "((\<lambda>x. af * (x - 1) * exp (bf * (x - 1)\<^sup>2)) has_real_derivative
          af * (1 + 2 * bf * (x - 1)\<^sup>2) * exp (bf * (x - 1)\<^sup>2)) (at x)"
  by (auto intro!: derivative_eq_intros simp: field_simps power2_eq_square)

lemma ev_gt: "(1::real) < x \<Longrightarrow> eventually (\<lambda>y. 1 \<le> y) (nhds x)"
  unfolding eventually_nhds by (rule exI [of _ "{1<..}"]) auto

lemma ev_lt: "x < (1::real) \<Longrightarrow> eventually (\<lambda>y. \<not> 1 \<le> y) (nhds x)"
  unfolding eventually_nhds by (rule exI [of _ "{..<1}"]) auto

lemma deriv_glue_at_1:
  fixes g :: "real \<Rightarrow> real"
  assumes g: "(g has_real_derivative 0) (at 1)" and g1: "g 1 = 0"
  shows "((\<lambda>x. if 1 \<le> x then g x else 0) has_real_derivative 0) (at 1)"
proof -
  from g g1 have q: "((\<lambda>y. g y / (y - 1)) \<longlongrightarrow> 0) (at 1)"
    by (simp add: has_field_derivative_iff)
  then have aq: "((\<lambda>y. \<bar>g y / (y - 1)\<bar>) \<longlongrightarrow> 0) (at 1)"
    by (rule tendsto_rabs_zero)
  have "((\<lambda>y. \<bar>(if 1 \<le> y then g y else 0) / (y - 1)\<bar>) \<longlongrightarrow> 0) (at 1)"
  proof (rule tendsto_sandwich [OF _ _ tendsto_const aq])
    show "\<forall>\<^sub>F y in at 1. 0 \<le> \<bar>(if 1 \<le> y then g y else 0) / (y - 1)\<bar>"
      by simp
    show "\<forall>\<^sub>F y in at 1. \<bar>(if 1 \<le> y then g y else 0) / (y - 1)\<bar> \<le> \<bar>g y / (y - 1)\<bar>"
      by simp
  qed
  then have "((\<lambda>y. (if 1 \<le> y then g y else 0) / (y - 1)) \<longlongrightarrow> 0) (at 1)"
    by (rule tendsto_rabs_zero_cancel)
  then show ?thesis
    using g1 by (simp add: has_field_derivative_iff)
qed

lemma deriv_W0:
  assumes p: "mtl_params m = HolzapfelOgden_params a b af bf" and bf: "bf \<noteq> 0"
  shows "(W_4_value m 0 has_real_derivative W_4_value m 1 x) (at x)"
proof -
  let ?g = "\<lambda>x. af / (2 * bf) * (exp (bf * (x - 1)\<^sup>2) - 1)"
  have W0: "W_4_value m 0 = (\<lambda>x. if 1 \<le> x then ?g x else 0)"
    using p by (rule ext [OF W_4_value_0])
  consider "x < 1" | "x = 1" | "1 < x" by linarith
  then show ?thesis
  proof cases
    case 1
    have "((\<lambda>x. if 1 \<le> x then ?g x else 0) has_real_derivative 0) (at x)
          \<longleftrightarrow> ((\<lambda>x. 0::real) has_real_derivative 0) (at x)"
      by (rule DERIV_cong_ev [OF refl _ refl]) (rule eventually_mono [OF ev_lt [OF 1]], simp)
    with 1 show ?thesis
      by (simp add: W0 W_4_value_1 [OF p])
  next
    case 2
    have "((\<lambda>x. if 1 \<le> x then ?g x else 0) has_real_derivative 0) (at 1)"
      by (rule deriv_glue_at_1) (use deriv_g [OF bf, of af 1] in simp_all)
    with 2 show ?thesis
      by (simp add: W0 W_4_value_1 [OF p])
  next
    case 3
    have "((\<lambda>x. if 1 \<le> x then ?g x else 0) has_real_derivative af * (x - 1) * exp (bf * (x - 1)\<^sup>2)) (at x)
          \<longleftrightarrow> (?g has_real_derivative af * (x - 1) * exp (bf * (x - 1)\<^sup>2)) (at x)"
      by (rule DERIV_cong_ev [OF refl _ refl]) (rule eventually_mono [OF ev_gt [OF 3]], simp)
    with 3 deriv_g [OF bf, of af x] show ?thesis
      by (simp add: W0 W_4_value_1 [OF p] max_def)
  qed
qed

lemma deriv_W1:
  assumes p: "mtl_params m = HolzapfelOgden_params a b af bf" and x: "x \<noteq> 1"
  shows "(W_4_value m 1 has_real_derivative W_4_value m 2 x) (at x)"
proof -
  let ?h = "\<lambda>x. af * (x - 1) * exp (bf * (x - 1)\<^sup>2)"
  have W1: "W_4_value m (Suc 0) = (\<lambda>x. if 1 \<le> x then ?h x else 0)"
    by (rule ext) (simp add: W_4_value_1 [OF p] max_def)
  consider "x < 1" | "1 < x" using x by linarith
  then show ?thesis
  proof cases
    case 1
    have "((\<lambda>x. if 1 \<le> x then ?h x else 0) has_real_derivative 0) (at x)
          \<longleftrightarrow> ((\<lambda>x. 0::real) has_real_derivative 0) (at x)"
      by (rule DERIV_cong_ev [OF refl _ refl]) (rule eventually_mono [OF ev_lt [OF 1]], simp)
    with 1 show ?thesis
      by (simp add: W1 W_4_value_2 [OF p])
  next
    case 2
    have "((\<lambda>x. if 1 \<le> x then ?h x else 0) has_real_derivative
             af * (1 + 2 * bf * (x - 1)\<^sup>2) * exp (bf * (x - 1)\<^sup>2)) (at x)
          \<longleftrightarrow> (?h has_real_derivative af * (1 + 2 * bf * (x - 1)\<^sup>2) * exp (bf * (x - 1)\<^sup>2)) (at x)"
      by (rule DERIV_cong_ev [OF refl _ refl]) (rule eventually_mono [OF ev_gt [OF 2]], simp)
    with 2 deriv_h [of af bf x] show ?thesis
      by (simp add: W1 W_4_value_2 [OF p])
  qed
qed

lemma cont_W1:
  assumes p: "mtl_params m = HolzapfelOgden_params a b af bf"
  shows "isCont (W_4_value m 1) x"
proof -
  have "W_4_value m 1 = (\<lambda>x. af * max (x - 1) 0 * exp (bf * (x - 1)\<^sup>2))"
    by (rule ext) (simp add: W_4_value_1 [OF p])
  then show ?thesis
    by (simp add: continuous_intros)
qed

lemma discont_W2:
  assumes p: "mtl_params m = HolzapfelOgden_params a b af bf" and af: "0 < af"
  shows "\<not> isCont (W_4_value m 2) 1"
proof
  assume c: "isCont (W_4_value m 2) 1"
  have v1: "W_4_value m 2 1 = af"
    by (simp add: W_4_value_2 [OF p])
  from c af obtain d where d: "0 < d" "\<forall>y. \<bar>y - 1\<bar> < d \<longrightarrow> \<bar>W_4_value m 2 y - W_4_value m 2 1\<bar> < af"
    unfolding isCont_def LIM_eq real_norm_def by (metis abs_zero diff_self)
  have "\<bar>(1 - d / 2) - 1\<bar> < d" using d(1) by simp
  with d(2) have "\<bar>W_4_value m 2 (1 - d / 2) - W_4_value m 2 1\<bar> < af" by blast
  moreover have "W_4_value m 2 (1 - d / 2) = 0"
    using d(1) by (simp add: W_4_value_2 [OF p])
  ultimately show False using v1 af by simp
qed

lemma strict_mono_W0:
  assumes p: "mtl_params m = HolzapfelOgden_params a b af bf" and af: "0 < af" and bf: "0 < bf"
    and xy: "1 < x" "x < y"
  shows "W_4_value m 0 x < W_4_value m 0 y"
proof -
  have "(x - 1)\<^sup>2 < (y - 1)\<^sup>2"
    using xy by (intro power_strict_mono) auto
  then have "exp (bf * (x - 1)\<^sup>2) < exp (bf * (y - 1)\<^sup>2)"
    using bf by simp
  moreover have "0 < af / (2 * bf)" using af bf by simp
  ultimately have "af / (2 * bf) * (exp (bf * (x - 1)\<^sup>2) - 1) < af / (2 * bf) * (exp (bf * (y - 1)\<^sup>2) - 1)"
    by (intro mult_strict_left_mono) auto
  then show ?thesis
    using xy by (simp add: W_4_value_0 [OF p])
qed


lemma W_4_returns_value:
  "d \<le> 2 \<Longrightarrow> W_4 m x d = Some (W_4_value m d x)"
  by (cases "mtl_params m") (auto simp: W_4_value_def W_4_def)

text \<open>
  C1 (as amended).  For a HolzapfelOgden material with \<open>a_f, b_f > 0\<close>:
  \<open>W_4(I4, diff = 0)\<close> is 0 for every \<open>I4 \<le> 1\<close> and
  \<open>a_f/(2*b_f)*(exp(b_f*(I4-1)^2)-1)\<close> for every \<open>I4 > 1\<close>; it is strictly
  increasing on \<open>I4 > 1\<close> and continuous at \<open>I4 = 1\<close>.  The \<open>diff = 1\<close>
  branch is its derivative at every \<open>I4\<close>, also at \<open>I4 = 1\<close>, where the
  derivative is 0 and continuous: the first derivative has no jump.  The
  \<open>diff = 2\<close> branch is the derivative of the \<open>diff = 1\<close> branch at every
  \<open>I4 \<noteq> 1\<close>; both branches are 0 for \<open>I4 < 1\<close>.  The discontinuity at
  \<open>I4 = 1\<close> is that of the second derivative: the \<open>diff = 2\<close> branch is
  \<open>a_f\<close> at \<open>I4 = 1\<close> and 0 below.
\<close>

theorem W_4_gating:
  assumes p: "mtl_params m = HolzapfelOgden_params a b a_f b_f"
    and af: "0 < a_f" and bf: "0 < b_f"
  shows "(I4 \<le> 1 \<longrightarrow> W_4 m I4 0 = Some 0)
    \<and> (1 < I4 \<longrightarrow> W_4 m I4 0 = Some (a_f / (2 * b_f) * (exp (b_f * (I4 - 1)\<^sup>2) - 1)))
    \<and> (1 < x \<and> x < y \<longrightarrow> W_4_value m 0 x < W_4_value m 0 y)
    \<and> isCont (W_4_value m 0) 1
    \<and> (d \<le> 2 \<longrightarrow> W_4 m I4 d = Some (W_4_value m d I4))
    \<and> (W_4_value m 0 has_real_derivative W_4_value m 1 I4) (at I4)
    \<and> (I4 \<noteq> 1 \<longrightarrow> (W_4_value m 1 has_real_derivative W_4_value m 2 I4) (at I4))
    \<and> (I4 < 1 \<longrightarrow> W_4 m I4 1 = Some 0 \<and> W_4 m I4 2 = Some 0)
    \<and> isCont (W_4_value m 1) 1
    \<and> W_4 m 1 1 = Some 0
    \<and> W_4 m 1 2 = Some a_f
    \<and> \<not> isCont (W_4_value m 2) 1"
proof -
  have c1: "I4 \<le> 1 \<longrightarrow> W_4 m I4 0 = Some 0"
    using p by (simp add: W_4_def heaviside_def)
  have c2: "1 < I4 \<longrightarrow> W_4 m I4 0 = Some (a_f / (2 * b_f) * (exp (b_f * (I4 - 1)\<^sup>2) - 1))"
    using p by (simp add: W_4_def heaviside_def)
  have c3: "1 < x \<and> x < y \<longrightarrow> W_4_value m 0 x < W_4_value m 0 y"
    using strict_mono_W0 [OF p af bf] by blast
  have d0: "(W_4_value m 0 has_real_derivative W_4_value m 1 z) (at z)" for z
    using bf by (intro deriv_W0 [OF p]) simp
  have c4: "isCont (W_4_value m 0) 1"
    using d0 [of 1] by (rule DERIV_isCont)
  have c5: "d \<le> 2 \<longrightarrow> W_4 m I4 d = Some (W_4_value m d I4)"
    by (simp add: W_4_returns_value)
  have c7: "I4 \<noteq> 1 \<longrightarrow> (W_4_value m 1 has_real_derivative W_4_value m 2 I4) (at I4)"
    using deriv_W1 [OF p] by blast
  have c8: "I4 < 1 \<longrightarrow> W_4 m I4 1 = Some 0 \<and> W_4 m I4 2 = Some 0"
    using p by (simp add: W_4_def heaviside_def subplus_def)
  have c9: "isCont (W_4_value m 1) 1"
    by (rule cont_W1 [OF p])
  have c10: "W_4 m 1 1 = Some 0"
    using p by (simp add: W_4_def subplus_def)
  have c11: "W_4 m 1 2 = Some a_f"
    using p by (simp add: W_4_def heaviside_def)
  have c12: "\<not> isCont (W_4_value m 2) 1"
    by (rule discont_W2 [OF p af])
  from c1 c2 c3 c4 c5 d0 [of I4] c7 c8 c9 c10 c11 c12 show ?thesis
    by blast
qed

text \<open>The theorem at the default parameters, at \<open>I4 = 1/2\<close> and \<open>I4 = 2\<close>.\<close>

theorem W_4_gating_witness:
  "W_4 default_HolzapfelOgden (1 / 2) 0 = Some 0
   \<and> W_4 default_HolzapfelOgden 2 0 = Some (1.685 / (2 * 15.779) * (exp 15.779 - 1))
   \<and> W_4_value default_HolzapfelOgden 0 2 < W_4_value default_HolzapfelOgden 0 3
   \<and> (W_4_value default_HolzapfelOgden 0 has_real_derivative
        W_4_value default_HolzapfelOgden 1 2) (at 2)
   \<and> (W_4_value default_HolzapfelOgden 1 has_real_derivative
        W_4_value default_HolzapfelOgden 2 2) (at 2)
   \<and> W_4 default_HolzapfelOgden (1 / 2) 1 = Some 0
   \<and> W_4 default_HolzapfelOgden (1 / 2) 2 = Some 0
   \<and> W_4 default_HolzapfelOgden 1 2 = Some 1.685
   \<and> \<not> isCont (W_4_value default_HolzapfelOgden 2) 1"
proof -
  have p: "mtl_params default_HolzapfelOgden = HolzapfelOgden_params 2.28 9.726 1.685 15.779"
    by (simp add: default_HolzapfelOgden_def HolzapfelOgden_default_parameters_def)
  have af: "(0::real) < 1.685" and bf: "(0::real) < 15.779" by simp_all
  show ?thesis
    using W_4_gating [OF p af bf, of "1 / 2" 2 3 0] W_4_gating [OF p af bf, of 2 2 3 0]
    by simp
qed

text \<open>
  Against C1 as stated (a derivative discontinuity at \<open>I4 = 1\<close>, and branches
  that are zero up to the threshold): for the default material the energy
  term has the derivative 0 at \<open>I4 = 1\<close>, the \<open>diff = 1\<close> branch is 0 and
  continuous there, and the \<open>diff = 2\<close> branch is 1.685 at \<open>I4 = 1\<close>.
\<close>

theorem W_4_derivative_continuous_counterexample:
  "HolzapfelOgden_init None None None ''active_strain'' None None None
     = Inr default_HolzapfelOgden
   \<and> (W_4_value default_HolzapfelOgden 0 has_real_derivative 0) (at 1)
   \<and> W_4_value default_HolzapfelOgden 1 1 = 0
   \<and> isCont (W_4_value default_HolzapfelOgden 1) 1
   \<and> W_4 default_HolzapfelOgden 1 2 = Some 1.685"
proof -
  have p: "mtl_params default_HolzapfelOgden = HolzapfelOgden_params 2.28 9.726 1.685 15.779"
    by (simp add: default_HolzapfelOgden_def HolzapfelOgden_default_parameters_def)
  have i: "HolzapfelOgden_init None None None ''active_strain'' None None None
             = Inr default_HolzapfelOgden"
    by (simp add: HolzapfelOgden_init_def Material_init_def default_HolzapfelOgden_def)
  have v: "W_4_value default_HolzapfelOgden 1 1 = 0"
    by (simp add: W_4_value_1 [OF p])
  have "(W_4_value default_HolzapfelOgden 0 has_real_derivative
          W_4_value default_HolzapfelOgden 1 1) (at 1)"
    by (rule deriv_W0 [OF p]) simp
  with v have dv: "(W_4_value default_HolzapfelOgden 0 has_real_derivative 0) (at 1)"
    by simp
  have w2: "W_4 default_HolzapfelOgden 1 2 = Some 1.685"
    using p by (simp add: W_4_def heaviside_def)
  from i dv v cont_W1 [OF p, of 1] w2 show ?thesis
    by blast
qed

subsection \<open>The reference tension\<close>

text \<open>
  C10.  When \<open>T_ref\<close> is omitted the constructor stores 300.0 for the
  active_stress model and 1.0 for the two active-strain models, so an
  active_stress material built without \<open>T_ref\<close> has
  \<open>Wactive(gamma, I4f, diff = 0) = 300.0 * gamma * I4f\<close>.
\<close>

theorem T_ref_default:
  "Material_init ''active_stress'' None = Inr 300.0
   \<and> Material_init ''active_strain'' None = Inr 1.0
   \<and> Material_init ''active_strain_rossi'' None = Inr 1.0
   \<and> (\<exists>m. HolzapfelOgden_init f0 g ps ''active_stress'' s0 n0 None = Inr m
          \<and> mtl_T_ref m = 300.0
          \<and> Wactive m gamma I4fv 0 = Some (300.0 * gamma * I4fv))
   \<and> (\<exists>m. NeoHookean_init f0 g pn ''active_stress'' s0 n0 None = Inr m
          \<and> mtl_T_ref m = 300.0
          \<and> Wactive m gamma I4fv 0 = Some (300.0 * gamma * I4fv))"
  by (simp add: Material_init_def HolzapfelOgden_init_def NeoHookean_init_def Wactive_def
      Let_def)

subsection \<open>Cauchy stress\<close>

lemma Identity_3: "Identity 3 = [[1, 0, 0], [0, 1, 0], [0, 0, 1]]"
  by (simp add: Identity_def upt_rec)

lemma Identity_2: "Identity 2 = [[1, 0], [0, 1]]"
  by (simp add: Identity_def upt_rec)

text \<open>What \<open>CauchyStress\<close> computes for an active_stress material: the factor of
  the active term is \<open>2 * gamma\<close>.\<close>

lemma CauchyStress_code:
  assumes "mtl_f0 m = Some f0"
    and "sqrt (dot (mat_vec F f0) (mat_vec F f0)) \<noteq> 0"
    and "W_1 m (I1 F) 1 (geometric_dimension F) = Some w1"
    and "W_4 m (I4f m F) 1 = Some w4f"
    and "mtl_active_model m = ''active_stress''"
  shows "CauchyStress m F (Some p) =
     (let f = vec_div (mat_vec F f0) (sqrt (dot (mat_vec F f0) (mat_vec F f0)));
          ff = outer f f
      in Inr (mat_sub
               (mat_add (mat_add (mat_scale (2 * w1) (mat_mul F (transpose F)))
                                 (mat_scale (2 * w4f) ff))
                        (mat_scale (2 * mtl_gamma m) ff))
               (mat_scale p (Identity (geometric_dimension F)))))"
  using assms by (simp add: CauchyStress_def Wactive_def Let_def)

text \<open>
  C2.  The claim has \<open>wactive = T_ref * gamma\<close>, the derivative of
  \<open>Wactive = T_ref * gamma * I4f\<close>.  The \<open>diff = 1\<close> branch of \<open>Wactive\<close> returns
  \<open>gamma\<close>.  At the undeformed state \<open>F = I\<close>, with the fiber \<open>[1,0,0]\<close>,
  \<open>gamma = 1\<close>, \<open>p = 0\<close> and the default \<open>T_ref = 300\<close>, the stress the code
  returns is \<open>diag(4.28, 2.28, 2.28)\<close>: its active part is \<open>2 * 1\<close>, where the
  claim has \<open>2 * 300\<close>.
\<close>

theorem CauchyStress_active_factor:
  "HolzapfelOgden_init (Some [1, 0, 0]) (Some 1) None ''active_stress'' None None None
     = Inr stress_example
   \<and> mtl_T_ref stress_example * mtl_gamma stress_example = 300
   \<and> Wactive stress_example (mtl_gamma stress_example) 0 1 = Some 1
   \<and> CauchyStress stress_example (Identity 3) (Some 0)
       = Inr [[4.28, 0, 0], [0, 2.28, 0], [0, 0, 2.28]]"
proof -
  have i: "HolzapfelOgden_init (Some [1, 0, 0]) (Some 1) None ''active_stress'' None None None
     = Inr stress_example"
    by (simp add: HolzapfelOgden_init_def Material_init_def stress_example_def)
  have t: "mtl_T_ref stress_example * mtl_gamma stress_example = 300"
    by (simp add: stress_example_def)
  have w: "Wactive stress_example (mtl_gamma stress_example) 0 1 = Some 1"
    by (simp add: stress_example_def Wactive_def)
  have I1v: "I1 [[1, 0, 0], [0, 1, 0], [0, 0, 1]] = 3"
    by (simp add: I1_def tr_def mat_mul_def dot_def upt_rec)
  have I4v: "I4f stress_example [[1, 0, 0], [0, 1, 0], [0, 0, 1]] = 1"
    by (simp add: I4f_def stress_example_def mat_vec_def mat_mul_def dot_def)
  have f0: "mtl_f0 stress_example = Some [1, 0, 0]" and g: "mtl_gamma stress_example = 1"
    and ps: "mtl_params stress_example = HolzapfelOgden_params 2.28 9.726 1.685 15.779"
    and am: "mtl_active_model stress_example = ''active_stress''"
    by (simp_all add: stress_example_def HolzapfelOgden_default_parameters_def)
  have c: "CauchyStress stress_example (Identity 3) (Some 0)
       = Inr [[4.28, 0, 0], [0, 2.28, 0], [0, 0, 2.28]]"
    unfolding Identity_3
    by (simp add: CauchyStress_def Let_def f0 g ps am I1v I4v W_1_def W_4_def Wactive_def
        subplus_def geometric_dimension_def Identity_def upt_rec mat_vec_def dot_def
        vec_div_def outer_def mat_mul_def mat_scale_def vec_scale_def mat_add_def vec_add_def
        mat_sub_def vec_sub_def)
  from i t w c show ?thesis by blast
qed

subsection \<open>Invariants of the active-strain models\<close>

text \<open>
  C3.  For a deformation gradient of dimension \<open>d\<close>, 2 or 3: in active_stress
  mode \<open>I1e\<close> and \<open>I4fe\<close> return \<open>I1\<close> and \<open>I4f\<close>; with
  \<open>mgamma = 1 - gamma\<close> (active_strain) or \<open>mgamma = 1 + gamma\<close>
  (active_strain_rossi), \<open>I1e = mgamma^(4-d)*I1 + (1/mgamma^2 - mgamma^(4-d))*I4f\<close>
  and \<open>I4fe = I4f/mgamma^2\<close>, wherever the quotients have a value
  (\<open>mgamma \<noteq> 0\<close>).
\<close>

theorem active_strain_invariants:
  assumes d: "geometric_dimension F = d" and d23: "d = 2 \<or> d = 3"
  shows "(mtl_active_model m = ''active_stress'' \<longrightarrow>
            I1e m F gamma = Inr (I1 F) \<and> I4fe m F gamma = Inr (I4f m F))
       \<and> (mtl_active_model m = ''active_strain'' \<and> 1 - gamma \<noteq> 0 \<longrightarrow>
            I1e m F gamma =
              Inr ((1 - gamma) ^ (4 - d) * I1 F
                   + (1 / (1 - gamma)\<^sup>2 - (1 - gamma) ^ (4 - d)) * I4f m F)
            \<and> I4fe m F gamma = Inr (I4f m F / (1 - gamma)\<^sup>2))
       \<and> (mtl_active_model m = ''active_strain_rossi'' \<and> 1 + gamma \<noteq> 0 \<longrightarrow>
            I1e m F gamma =
              Inr ((1 + gamma) ^ (4 - d) * I1 F
                   + (1 / (1 + gamma)\<^sup>2 - (1 + gamma) ^ (4 - d)) * I4f m F)
            \<and> I4fe m F gamma = Inr (I4f m F / (1 + gamma)\<^sup>2))"
proof -
  have pw: "x powi (4 - int d) = x ^ (4 - d)" for x :: real
    using d23 by (auto simp: power_int_def)
  show ?thesis
    using d by (simp add: I1e_def I4fe_def Let_def pw)
qed

text \<open>The theorem in three dimensions for active_strain (\<open>gamma = 1/2\<close>) and
  active_stress, and in two dimensions for active_strain_rossi (\<open>gamma = 1\<close>).\<close>

theorem active_strain_invariants_witness:
  "I1e (default_HolzapfelOgden\<lparr>mtl_f0 := Some [1, 0, 0]\<rparr>) (Identity 3) (1 / 2) = Inr 5
   \<and> I4fe (default_HolzapfelOgden\<lparr>mtl_f0 := Some [1, 0, 0]\<rparr>) (Identity 3) (1 / 2) = Inr 4
   \<and> I1e (default_HolzapfelOgden\<lparr>mtl_f0 := Some [1, 0],
                                   mtl_active_model := ''active_strain_rossi''\<rparr>)
        (Identity 2) 1 = Inr 4.25
   \<and> I4fe (default_HolzapfelOgden\<lparr>mtl_f0 := Some [1, 0],
                                    mtl_active_model := ''active_strain_rossi''\<rparr>)
        (Identity 2) 1 = Inr 0.25
   \<and> I1e stress_example (Identity 3) (1 / 2) = Inr 3
   \<and> I4fe stress_example (Identity 3) (1 / 2) = Inr 1"
proof -
  have d3: "geometric_dimension (Identity 3) = 3" and d2: "geometric_dimension (Identity 2) = 2"
    by (simp_all add: geometric_dimension_def Identity_def)
  have I13: "I1 (Identity 3) = 3" and I12: "I1 (Identity 2) = 2"
    by (simp_all add: Identity_3 Identity_2 I1_def tr_def mat_mul_def dot_def upt_rec)
  have I43: "I4f (default_HolzapfelOgden\<lparr>mtl_f0 := Some [1, 0, 0]\<rparr>) (Identity 3) = 1"
    and I4s: "I4f stress_example (Identity 3) = 1"
    and I42: "I4f (default_HolzapfelOgden\<lparr>mtl_f0 := Some [1, 0],
                 mtl_active_model := ''active_strain_rossi''\<rparr>) (Identity 2) = 1"
    by (simp_all add: Identity_3 Identity_2 I4f_def stress_example_def mat_vec_def mat_mul_def
        dot_def)
  have am1: "mtl_active_model (default_HolzapfelOgden\<lparr>mtl_f0 := Some [1, 0, 0]\<rparr>)
               = ''active_strain''"
    and am2: "mtl_active_model (default_HolzapfelOgden\<lparr>mtl_f0 := Some [1, 0],
                 mtl_active_model := ''active_strain_rossi''\<rparr>) = ''active_strain_rossi''"
    and am3: "mtl_active_model stress_example = ''active_stress''"
    by (simp_all add: default_HolzapfelOgden_def stress_example_def)
  show ?thesis
    using active_strain_invariants [OF d3, of "default_HolzapfelOgden\<lparr>mtl_f0 := Some [1, 0, 0]\<rparr>" "1 / 2"]
      active_strain_invariants [OF d2, of "default_HolzapfelOgden\<lparr>mtl_f0 := Some [1, 0],
                 mtl_active_model := ''active_strain_rossi''\<rparr>" 1]
      active_strain_invariants [OF d3, of stress_example "1 / 2"]
    by (simp add: I13 I12 I43 I42 I4s am1 am2 am3 power2_eq_square)
qed


section \<open>Construction\<close>

lemma Guccione_defaults_read:
  "(map_of Guccione_default_parameters ++ map_of params) ''Tactive'' \<noteq> None"
  "(map_of Guccione_default_parameters ++ map_of params) ''e1'' \<noteq> None"
  by (simp_all add: Guccione_default_parameters_def map_add_def split: option.splits)

lemma Guccione_init_succeeds:
  "\<exists>G. Guccione_init params = Inr G
       \<and> guc_parameters G = map_of Guccione_default_parameters ++ map_of params"
  using Guccione_defaults_read [of params]
  by (auto simp: Guccione_init_def Let_def split: option.splits)

text \<open>
  C7 (as amended).  The constructors of \<open>HolzapfelOgden\<close> and \<open>NeoHookean\<close>,
  the two subclasses that call \<^verbatim>\<open>Material.__init__\<close>, fail with the
  assertion's error for an active-model tag outside the three tags and
  succeed for each of the three; the constructor of \<open>Regularization\<close> does
  the same for its space tag.  The check is the assertion of the
  constructor, so it is made before anything is evaluated.  The constructor
  of \<open>Guccione\<close> takes no active-model tag and checks none: it succeeds for
  every set of keyword parameters and keeps them among its parameters.
\<close>

theorem construction_checks_tag:
  "(tag \<in> {''active_stress'', ''active_strain'', ''active_strain_rossi''} \<longrightarrow>
      (\<exists>m. HolzapfelOgden_init f0 g ps tag s0 n0 T = Inr m \<and> mtl_active_model m = tag)
      \<and> (\<exists>m. NeoHookean_init f0 g pn tag s0 n0 T = Inr m \<and> mtl_active_model m = tag))
   \<and> (tag \<notin> {''active_stress'', ''active_strain'', ''active_strain_rossi''} \<longrightarrow>
      HolzapfelOgden_init f0 g ps tag s0 n0 T = Inl AssertionError
      \<and> NeoHookean_init f0 g pn tag s0 n0 T = Inl AssertionError)
   \<and> (space \<in> {''CG_1'', ''regional'', ''R_0''} \<longrightarrow>
      (\<exists>r. Regularization_init mesh space lmbda = Inr r \<and> reg_space r = space))
   \<and> (space \<notin> {''CG_1'', ''regional'', ''R_0''} \<longrightarrow>
      Regularization_init mesh space lmbda = Inl AssertionError)
   \<and> (\<exists>G. Guccione_init params = Inr G
          \<and> guc_parameters G = map_of Guccione_default_parameters ++ map_of params)"
proof -
  have "(tag \<in> {''active_stress'', ''active_strain'', ''active_strain_rossi''} \<longrightarrow>
      (\<exists>m. HolzapfelOgden_init f0 g ps tag s0 n0 T = Inr m \<and> mtl_active_model m = tag)
      \<and> (\<exists>m. NeoHookean_init f0 g pn tag s0 n0 T = Inr m \<and> mtl_active_model m = tag))
   \<and> (tag \<notin> {''active_stress'', ''active_strain'', ''active_strain_rossi''} \<longrightarrow>
      HolzapfelOgden_init f0 g ps tag s0 n0 T = Inl AssertionError
      \<and> NeoHookean_init f0 g pn tag s0 n0 T = Inl AssertionError)
   \<and> (space \<in> {''CG_1'', ''regional'', ''R_0''} \<longrightarrow>
      (\<exists>r. Regularization_init mesh space lmbda = Inr r \<and> reg_space r = space))
   \<and> (space \<notin> {''CG_1'', ''regional'', ''R_0''} \<longrightarrow>
      Regularization_init mesh space lmbda = Inl AssertionError)"
    by (cases T) (auto simp: HolzapfelOgden_init_def NeoHookean_init_def Material_init_def
        Regularization_init_def Let_def)
  with Guccione_init_succeeds [of params] show ?thesis
    by blast
qed

text \<open>The theorem for the tags \<open>active_strain\<close> and \<open>passive\<close>, the spaces
  \<open>R_0\<close> and \<open>CG_2\<close>, and a Guccione material given the parameter
  \<open>C = 1\<close>.\<close>

theorem construction_checks_tag_witness:
  "HolzapfelOgden_init None None None ''active_strain'' None None None
     = Inr default_HolzapfelOgden
   \<and> HolzapfelOgden_init None None None ''passive'' None None None = Inl AssertionError
   \<and> NeoHookean_init None None None ''passive'' None None None = Inl AssertionError
   \<and> Regularization_init [] ''R_0'' 0
       = Inr \<lparr> reg_space = ''R_0'', reg_lmbda = 0, reg_value = 0, reg_meshvol = 0,
               reg_dx = [], reg_results = [] \<rparr>
   \<and> Regularization_init [] ''CG_2'' 0 = Inl AssertionError
   \<and> Guccione_init [(''C'', PyFloat 1)]
       = Inr \<lparr> guc_parameters =
                 map_of Guccione_default_parameters ++ map_of [(''C'', PyFloat 1)],
               guc_gamma = PyNone, guc_f0 = PyNone \<rparr>"
proof -
  have gf: "guc_gamma G = PyNone \<and> guc_f0 G = PyNone"
    if "Guccione_init [(''C'', PyFloat 1)] = Inr G" for G
    using that
    by (auto simp: Guccione_init_def Guccione_default_parameters_def Let_def
        split: option.splits)
  from construction_checks_tag [of "''active_strain''" None None None None None None
      None "''R_0''" "[]" 0 "[(''C'', PyFloat 1)]"]
    construction_checks_tag [of "''passive''" None None None None None None
      None "''CG_2''" "[]" 0 "[(''C'', PyFloat 1)]"]
  show ?thesis
    using gf
    by (auto simp: HolzapfelOgden_init_def Material_init_def default_HolzapfelOgden_def
        Regularization_init_def assemble_def)
qed

text \<open>
  Against C7 as stated, for every Material: a Guccione material built with
  the parameter \<open>active_model = passive\<close>, a tag outside the three, is
  constructed and holds the tag among its parameters; so is one built with
  no parameter at all.
\<close>

theorem Guccione_constructs_unchecked_counterexample:
  "Guccione_init [(''active_model'', PyStr ''passive'')]
     = Inr \<lparr> guc_parameters = map_of Guccione_default_parameters
                                ++ map_of [(''active_model'', PyStr ''passive'')],
             guc_gamma = PyNone, guc_f0 = PyNone \<rparr>
   \<and> (map_of Guccione_default_parameters
         ++ map_of [(''active_model'', PyStr ''passive'')]) ''active_model''
       = Some (PyStr ''passive'')
   \<and> Guccione_init []
       = Inr \<lparr> guc_parameters = map_of Guccione_default_parameters ++ map_of [],
               guc_gamma = PyNone, guc_f0 = PyNone \<rparr>"
  by (simp add: Guccione_init_def Guccione_default_parameters_def Let_def)

section \<open>Properties of optimization\_targets.py\<close>

subsection \<open>VolumeTarget\<close>

lemma vol_zero_displacement:
  "vol sphere_patch_target zero_displacement [3, 0, 0] = 1"
  "vol sphere_patch_target zero_displacement [0, 3, 0] = 1"
  by (simp_all add: vol_def zero_displacement_def sphere_patch_target_def Identity_3 Let_def
      mat_add_def vec_add_def det_def inv_mat_def adj_def mat_scale_def vec_scale_def
      mat_vec_def dot_def)

lemma det_zero_displacement:
  "det (mat_add (u_grad zero_displacement X) (Identity 3)) = 1"
  by (simp add: zero_displacement_def Identity_3 mat_add_def vec_add_def det_def)

text \<open>
  C4.  The claim has the simulated volume equal to the surface integral of
  \<open>vol\<close>.  The projection in \<open>assign_simulated\<close> integrates the trial
  function over the surface too, so what it stores is the integral divided
  by the area of the surface.  On a surface of area 2 on which the integral
  of \<open>vol\<close> is 2, the simulated value is 1.
\<close>

theorem VolumeTarget_simulated_is_surface_mean:
  "assemble (\<lambda>X. 1) (vt_dmu sphere_patch_target) = 2
   \<and> assemble (vol sphere_patch_target zero_displacement) (vt_dmu sphere_patch_target) = 2
   \<and> VolumeTarget_assign_simulated sphere_patch_target zero_displacement
       = Inr (sphere_patch_target\<lparr>vt_simulated_fun := 1\<rparr>)"
proof -
  have a: "assemble (\<lambda>X. 1) (vt_dmu sphere_patch_target) = 2"
    by (simp add: assemble_def sphere_patch_target_def)
  have dmu: "vt_dmu sphere_patch_target = [(1, [3, 0, 0]), (1, [0, 3, 0])]"
    by (simp add: sphere_patch_target_def)
  have b: "assemble (vol sphere_patch_target zero_displacement) (vt_dmu sphere_patch_target) = 2"
    by (simp add: dmu assemble_def vol_zero_displacement)
  have c: "VolumeTarget_assign_simulated sphere_patch_target zero_displacement
       = Inr (sphere_patch_target\<lparr>vt_simulated_fun := 1\<rparr>)"
    by (simp add: VolumeTarget_assign_simulated_def a b det_zero_displacement solve_R_def)
  from a b c show ?thesis by blast
qed

text \<open>The misfit of the volume target is the squared relative error, and the
  functional takes its value.\<close>

lemma VolumeTarget_misfit:
  assumes "vt_target_fun t \<noteq> 0" and "vt_meshvol t \<noteq> 0"
  shows "VolumeTarget_form t = Inr (((vt_target_fun t - vt_simulated_fun t) / vt_target_fun t)\<^sup>2)"
    and "\<exists>t'. VolumeTarget_assign_functional t = Inr t'
           \<and> VolumeTarget_get_value t'
               = ((vt_target_fun t - vt_simulated_fun t) / vt_target_fun t)\<^sup>2"
  using assms
  by (simp_all add: VolumeTarget_form_def VolumeTarget_assign_functional_def solve_R_def
      VolumeTarget_get_value_def)

lemma VolumeTarget_misfit_examples:
  "VolumeTarget_form (sphere_patch_target\<lparr>vt_target_fun := 120, vt_simulated_fun := 120\<rparr>)
     = Inr 0"
  "VolumeTarget_form (sphere_patch_target\<lparr>vt_target_fun := 100, vt_simulated_fun := 110\<rparr>)
     = Inr 0.01"
  by (simp_all add: VolumeTarget_form_def power2_eq_square)

subsection \<open>RegionalStrainTarget\<close>

lemma map_const_1_18: "map (\<lambda>i. c) [Suc 0..<18] = replicate 17 c"
  by (simp add: map_replicate_const)

lemma last_1_18: "last [1..<18] = 17"
  by simp

lemma strain_weight_list:
  "(replicate 9 (0::real))[0 := a, 4 := b, 8 := c] = [a, 0, 0, 0, b, 0, 0, 0, c]"
  by (simp add: numeral_eq_Suc)

lemma set_target_functions_weights:
  assumes "RegionalStrainTarget_set_target_functions t = Inr t'"
  shows "length (rst_weights t') = 17"
    and "i < 16 \<Longrightarrow> rst_weights t' ! i = replicate 9 0"
    and "rst_weights t' ! 16 =
           [rst_weights_arr t ! 16 ! 0, 0, 0, 0, rst_weights_arr t ! 16 ! 1, 0, 0, 0,
            rst_weights_arr t ! 16 ! 2]"
proof -
  from assms have w: "rst_weights t' =
      (replicate 17 (replicate 9 0))
        [16 := [rst_weights_arr t ! 16 ! 0, 0, 0, 0, rst_weights_arr t ! 16 ! 1, 0, 0, 0,
                rst_weights_arr t ! 16 ! 2]]"
    by (auto simp: RegionalStrainTarget_set_target_functions_def Let_def map_const_1_18
        strain_weight_list split: if_splits)
  show "length (rst_weights t') = 17" by (simp add: w)
  show "i < 16 \<Longrightarrow> rst_weights t' ! i = replicate 9 0" by (simp add: w)
  show "rst_weights t' ! 16 =
           [rst_weights_arr t ! 16 ! 0, 0, 0, 0, rst_weights_arr t ! 16 ! 1, 0, 0, 0,
            rst_weights_arr t ! 16 ! 2]" by (simp add: w)
qed

text \<open>
  C5.  The claim has the weight function of every segment equal to the diagonal
  tensor of its row of the weight array.  The assignment in
  \<open>set_target_functions\<close> is made once, for the last segment: with the
  default weights the sixteen other weight functions stay zero, among them
  that of the first segment.
\<close>

theorem set_target_functions_sets_last_weight_only:
  "RegionalStrainTarget_set_target_functions unit_weights_target
     = Inr (unit_weights_target
              \<lparr>rst_target_fun := replicate 17 [0, 0, 0],
               rst_simulated_fun := replicate 17 [0, 0, 0],
               rst_functional := replicate 17 0,
               rst_weights := replicate 16 [0, 0, 0, 0, 0, 0, 0, 0, 0]
                                @ [[1, 0, 0, 0, 1, 0, 0, 0, 1]]\<rparr>)
   \<and> (replicate 16 [0, 0, 0, 0, 0, 0, 0, 0, 0] @ [[1, 0, 0, 0, 1, 0, 0, 0, 1]]) ! 0
       = [0, 0, 0, 0, 0, 0, 0, 0, (0::real)]"
  by (simp add: RegionalStrainTarget_set_target_functions_def Let_def map_const_1_18
      unit_weights_target_def numeral_eq_Suc)

text \<open>The functional is zero where the simulated strains are the targets.\<close>

lemma vec_sub_self: "vec_sub v v = replicate (length v) 0"
  by (induction v) (simp_all add: vec_sub_def)

lemma dot_zero_right: "dot r (replicate n 0) = 0"
proof (induction r arbitrary: n)
  case Nil
  then show ?case by (simp add: dot_def)
next
  case (Cons x r)
  then show ?case by (cases n) (simp_all add: dot_def)
qed

lemma form_zero_at_target:
  assumes "rst_simulated_fun t ! i = rst_target_fun t ! i"
  shows "RegionalStrainTarget_form t i = 0"
proof -
  have "mat_vec (as_tensor w) (vec_sub v v) = [0, 0, 0]" for w v
    by (simp add: mat_vec_def as_tensor_def vec_sub_self dot_zero_right)
  then show ?thesis
    using assms by (simp add: RegionalStrainTarget_form_def dot_def)
qed

lemma assign_functional_loop_zero:
  assumes "\<forall>i \<in> set is. RegionalStrainTarget_form t i = 0" and "rst_meshvol t \<noteq> 0"
  shows "\<exists>t'. assign_functional_loop t is = Inr t'
        \<and> rst_functional t' = fold (\<lambda>i f. f[i := 0]) is (rst_functional t)"
  using assms
proof (induction "is" arbitrary: t)
  case Nil
  then show ?case by simp
next
  case (Cons i "is")
  let ?t = "t\<lparr>rst_functional := (rst_functional t)[i := 0]\<rparr>"
  have f: "RegionalStrainTarget_functional_i t i = Inr 0"
    using Cons.prems by (simp add: RegionalStrainTarget_functional_i_def solve_R_def)
  have "\<forall>j \<in> set is. RegionalStrainTarget_form ?t j = 0"
    using Cons.prems by (simp add: RegionalStrainTarget_form_def)
  moreover have "rst_meshvol ?t \<noteq> 0" using Cons.prems by simp
  ultimately obtain t' where "assign_functional_loop ?t is = Inr t'"
    "rst_functional t' = fold (\<lambda>i f. f[i := 0]) is (rst_functional ?t)"
    using Cons.IH by blast
  then show ?case by (simp add: f)
qed

lemma length_fold_update: "length (fold (\<lambda>i f. f[i := c]) is f) = length f"
  by (induction "is" arbitrary: f) simp_all

lemma fold_update_zero:
  assumes "k < length f"
  shows "fold (\<lambda>i f. f[i := 0]) [0..<n] (f::real list) ! k = (if k < n then 0 else f ! k)"
  using assms
proof (induction n)
  case 0
  then show ?case by simp
next
  case (Suc n)
  then show ?case
    by (cases "k = n") (simp_all add: length_fold_update)
qed

lemma sum_list_all_zero:
  "\<forall>x \<in> set xs. g x = (0::real) \<Longrightarrow> sum_list (map g xs) = 0"
  by (induction xs) auto

lemma get_value_zero_at_target:
  assumes same: "\<forall>i < 17. rst_simulated_fun t ! i = rst_target_fun t ! i"
    and vol: "rst_meshvol t \<noteq> 0" and len: "length (rst_functional t) = 17"
  shows "\<exists>t'. RegionalStrainTarget_assign_functional t = Inr t'
           \<and> RegionalStrainTarget_get_value t' = 0"
proof -
  have "\<forall>i \<in> set [0..<17]. RegionalStrainTarget_form t i = 0"
    using same by (simp add: form_zero_at_target)
  from assign_functional_loop_zero [OF this vol] obtain t' where
    t': "assign_functional_loop t [0..<17] = Inr t'"
    "rst_functional t' = fold (\<lambda>i f. f[i := 0]) [0..<17] (rst_functional t)"
    by blast
  have "\<forall>k \<in> set [0..<17]. rst_functional t' ! k = 0"
    using len by (simp add: t'(2) fold_update_zero)
  then have "sum_list (map (\<lambda>i. rst_functional t' ! i) [0..<17]) = 0"
    by (rule sum_list_all_zero)
  with t'(1) show ?thesis
    by (simp add: RegionalStrainTarget_assign_functional_def RegionalStrainTarget_get_value_def)
qed

subsection \<open>Regularization\<close>

text \<open>
  C6.  \<open>get_form\<close> returns the integrand \<open>|grad m|^2 / meshvol\<close> over the mesh
  for the space \<open>CG_1\<close> and a form that assembles to 0 for \<open>R_0\<close>.  For
  the space \<open>regional\<close>, where the claim has a form, the call raises: for a
  control of 17 regions the \<open>AttributeError\<close> of the attribute \<open>mesh_vol\<close>.
\<close>

theorem get_form_by_space:
  "get_form (r\<lparr>reg_space := ''CG_1''\<rparr>) m
     = Inr (Form (\<lambda>x. dot (ctl_grad m x) (ctl_grad m x) / reg_meshvol r) (reg_dx r))
   \<and> get_form (r\<lparr>reg_space := ''regional''\<rparr>) m
     = Inl (if length (ctl_array m) = 17 then AttributeError else UFLException)
   \<and> get_form (r\<lparr>reg_space := ''R_0''\<rparr>) m = Inr (Form (\<lambda>x. 0) (reg_dx r))
   \<and> assemble_form (Form (\<lambda>x. 0) (reg_dx r)) = 0"
proof -
  have "assemble (\<lambda>x. 0) dmu = 0" for dmu
    unfolding assemble_def by (induction dmu) auto
  then show ?thesis
    by (simp add: get_form_def Let_def)
qed


section \<open>Properties of MyReducedFunctional\<close>




text \<open>
  C9 (as amended).  On the two paths on which the call returns, with or
  without a crash, the recording switch is off again
  (\<open>stop_annotating = True\<close>) when control is back at the caller.  When the
  forward run raises, the exception leaves the call with the switch still
  on: nothing in the call catches it.
\<close>

theorem call_flag_on_exit:
  "(env_for_run env (new_control val) True = Inr (res, crash) \<longrightarrow>
      (\<exists>r. snd (call env val return_fail w) = Inr r)
      \<and> stop_annotating (fst (fst (call env val return_fail w))) = True)
   \<and> (env_for_run env (new_control val) True = Inl e \<longrightarrow>
      snd (call env val return_fail w) = Inl e
      \<and> stop_annotating (fst (fst (call env val return_fail w))) = False)"
  by (simp add: call_def Let_def)


text \<open>The theorem for a forward run that reports a crash and for one that
  raises.\<close>

theorem call_flag_on_exit_witness:
  "snd (call (forward_returns \<lparr>fr_total_functional = 3, fr_func_value = Fin 3\<rparr> True)
          (NumberValue 0) False (recording_off, MyReducedFunctional_init recording_off [0] 2 1 False))
     = Inr (Value PInf)
   \<and> stop_annotating (fst (fst (call (forward_returns \<lparr>fr_total_functional = 3, fr_func_value = Fin 3\<rparr> True)
          (NumberValue 0) False (recording_off, MyReducedFunctional_init recording_off [0] 2 1 False))))
   \<and> snd (call forward_raises (NumberValue 0) False
            (recording_off, MyReducedFunctional_init recording_off [0] 2 1 False))
     = Inl RuntimeError
   \<and> stop_annotating (fst (fst (call forward_raises (NumberValue 0) False
            (recording_off, MyReducedFunctional_init recording_off [0] 2 1 False)))) = False"
proof -
  let ?res = "\<lparr>fr_total_functional = 3, fr_func_value = Fin 3\<rparr>"
  let ?w = "(recording_off, MyReducedFunctional_init recording_off [0] 2 1 False)"
  have r: "env_for_run (forward_returns ?res True) (new_control (NumberValue 0)) True
             = Inr (?res, True)"
    by (simp add: forward_returns_def)
  have e: "env_for_run forward_raises (new_control (NumberValue 0)) True = Inl RuntimeError"
    by (simp add: forward_raises_def)
  have v: "snd (call (forward_returns ?res True) (NumberValue 0) False ?w) = Inr (Value PInf)"
    by (simp add: call_def Let_def forward_returns_def ReducedFunctional_init_stores_def
        MyReducedFunctional_init_def)
  from call_flag_on_exit [of "forward_returns ?res True" "NumberValue 0" ?res True False ?w]
    call_flag_on_exit [of forward_raises "NumberValue 0" ?res True False ?w RuntimeError]
    r e v
  show ?thesis by simp
qed

text \<open>
  Against C9 as stated: recording is off before the call, the forward run
  raises, and recording is on after the call.
\<close>

theorem call_raise_leaves_recording_on_counterexample:
  "stop_annotating recording_off = True
   \<and> snd (call forward_raises (NumberValue 0) False
            (recording_off, MyReducedFunctional_init recording_off [0] 1 1 False))
       = Inl RuntimeError
   \<and> stop_annotating (fst (fst (call forward_raises (NumberValue 0) False
            (recording_off, MyReducedFunctional_init recording_off [0] 1 1 False)))) = False"
  by (simp add: call_def Let_def forward_raises_def recording_off_def)

end
